theory Spec2Isabelle
  imports Main "HOL-Library.Sublist"
begin

section \<open>Data model\<close>

text \<open>
  The exclusion rule engine of the package \<^verbatim>\<open>exclusionrules\<close>: the rule type, the loader
  \<^verbatim>\<open>readFile\<close>, the validator \<^verbatim>\<open>filterValidRules\<close>, the \<^verbatim>\<open>Matcher\<close> and the
  \<^verbatim>\<open>CriticalPathExcluder\<close>. Log lines (\<^verbatim>\<open>klog\<close>) have no influence on any returned
  value and are left out.
\<close>

text \<open>
  Modelled from the spec: the type \<^verbatim>\<open>ScopeType\<close> and its three constants belong to
  \<^verbatim>\<open>k8s.io/api/admissionregistration/v1\<close>, which is not among the sources. It is a Go
  string type, so a deserialized rule may carry any token. The spec names the three scopes
  Cluster, Namespaced and All; the Kubernetes API spells the last one \<open>*\<close>. Nothing
  below depends on the spelling, only on the three tokens being different.
\<close>

type_synonym ScopeType = string

definition ClusterScope :: ScopeType where
  "ClusterScope = ''Cluster''"

definition NamespacedScope :: ScopeType where
  "NamespacedScope = ''Namespaced''"

definition AllScopes :: ScopeType where
  "AllScopes = ''*''"

text \<open>\<^verbatim>\<open>metav1.NamespaceNone\<close> is the empty namespace.\<close>

definition NamespaceNone :: string where
  "NamespaceNone = ''''"

text \<open>\<^verbatim>\<open>schema.GroupVersionResource\<close> and \<^verbatim>\<open>schema.GroupVersionKind\<close>.\<close>

record GroupVersionResource =
  gvr_Group :: string
  gvr_Version :: string
  gvr_Resource :: string

record GroupVersionKind =
  gvk_Group :: string
  gvk_Version :: string
  gvk_Kind :: string

text \<open>
  The part of \<^verbatim>\<open>admission.Attributes\<close> the engine can observe: each field is the value
  returned by the getter of the same name. \<^verbatim>\<open>admission.Operation\<close> is a string type.
\<close>

record Attributes =
  GetKind :: GroupVersionKind
  GetNamespace :: string
  GetName :: string
  GetResource :: GroupVersionResource
  GetSubresource :: string
  GetOperation :: string

text \<open>The struct \<^verbatim>\<open>ExclusionRule\<close>; the pointer field \<^verbatim>\<open>Scope\<close> is \<open>None\<close> when nil.\<close>

record ExclusionRule =
  APIGroup :: string
  APIVersion :: string
  Name :: "string list"
  Kind :: string
  Namespace :: string
  Scope :: "ScopeType option"

record CriticalPathExcluder =
  exclusionRules :: "ExclusionRule list"

section \<open>The matcher\<close>

definition namespaceResource :: GroupVersionResource where
  "namespaceResource = \<lparr>gvr_Group = '''', gvr_Version = ''v1'', gvr_Resource = ''namespaces''\<rparr>"

record Matcher =
  ExclusionRule :: ExclusionRule
  Attr :: Attributes

fun exactOrWildcard :: "string list \<Rightarrow> string \<Rightarrow> bool" where
  "exactOrWildcard [] requested = False"
| "exactOrWildcard (item # items) requested =
     (if item = ''*'' then True
      else if item = requested then True
      else exactOrWildcard items requested)"

definition scope :: "Matcher \<Rightarrow> bool" where
  "scope r =
     (case Scope (ExclusionRule r) of
        None \<Rightarrow> False
      | Some sc \<Rightarrow>
          if sc = AllScopes then False
          else if sc = NamespacedScope then
            GetResource (Attr r) \<noteq> namespaceResource \<and> GetNamespace (Attr r) \<noteq> NamespaceNone
          else if sc = ClusterScope then
            GetResource (Attr r) = namespaceResource \<or> GetNamespace (Attr r) = NamespaceNone
          else False)"

definition group :: "Matcher \<Rightarrow> bool" where
  "group r = (APIGroup (ExclusionRule r) = gvr_Group (GetResource (Attr r)))"

definition name :: "Matcher \<Rightarrow> bool" where
  "name r = exactOrWildcard (Name (ExclusionRule r)) (GetName (Attr r))"

definition namespace :: "Matcher \<Rightarrow> bool" where
  "namespace r = (Namespace (ExclusionRule r) = GetNamespace (Attr r))"

definition version :: "Matcher \<Rightarrow> bool" where
  "version r = (APIVersion (ExclusionRule r) = gvr_Version (GetResource (Attr r)))"

definition kind :: "Matcher \<Rightarrow> bool" where
  "kind r = (Kind (ExclusionRule r) = gvk_Kind (GetKind (Attr r)))"

definition Matches :: "Matcher \<Rightarrow> bool" where
  "Matches r = (name r \<and> namespace r \<and> group r \<and> version r \<and> kind r)"

section \<open>The loader\<close>

definition ADMISSION_WEBHOOK_EXCLUSION_ENV_VAR :: string where
  "ADMISSION_WEBHOOK_EXCLUSION_ENV_VAR = ''EKS_PATCH_EXCLUSION_RULES_FILE''"

text \<open>
  What \<^verbatim>\<open>readFile\<close> reads from its surroundings: \<^verbatim>\<open>os.LookupEnv\<close> and
  \<^verbatim>\<open>os.ReadFile\<close>. A Go error is its message, on the left of a sum.
\<close>

type_synonym error = string

record OS =
  LookupEnv :: "string \<Rightarrow> string option"
  ReadFile :: "string \<Rightarrow> error + string"

definition defaultExclusion :: "ExclusionRule list" where
  "defaultExclusion =
     [\<lparr>APIGroup = ''coordination.k8s.io'', APIVersion = ''v1'',
       Name = [''kube-controller-manager'', ''kube-scheduler''],
       Kind = ''Lease'', Namespace = ''kube-system'', Scope = Some NamespacedScope\<rparr>,
      \<lparr>APIGroup = '''', APIVersion = ''v1'',
       Name = [''kube-controller-manager'', ''kube-scheduler''],
       Kind = ''Endpoints'', Namespace = ''kube-system'', Scope = Some NamespacedScope\<rparr>]"

text \<open>
  \<^verbatim>\<open>json.Unmarshal\<close> into a slice of rules belongs to the Go standard library; it is the
  parameter \<open>unmarshal\<close>, from the bytes of the file to an error or the decoded rules.
\<close>

definition readFile :: "OS \<Rightarrow> (string \<Rightarrow> error + ExclusionRule list) \<Rightarrow> ExclusionRule list" where
  "readFile os unmarshal =
     (case LookupEnv os ADMISSION_WEBHOOK_EXCLUSION_ENV_VAR of
        Some fileLocation \<Rightarrow>
          (case ReadFile os fileLocation of
             Inl err \<Rightarrow> defaultExclusion
           | Inr file \<Rightarrow>
               (case unmarshal file of
                  Inl err \<Rightarrow> defaultExclusion
                | Inr data \<Rightarrow> data))
      | None \<Rightarrow> defaultExclusion)"

section \<open>The validator\<close>

fun contains :: "string list \<Rightarrow> string \<Rightarrow> bool" where
  "contains [] str = False"
| "contains (v # s) str = (if v = str then True else contains s str)"

definition isDisallowedNameWildcard :: "ExclusionRule \<Rightarrow> bool" where
  "isDisallowedNameWildcard rule =
     (\<not> (APIGroup rule = ''coordination.k8s.io'' \<and> APIVersion rule = ''v1'' \<and>
         Kind rule = ''Lease'' \<and> Namespace rule = ''kube-node-lease''))"

text \<open>
  The loop of \<^verbatim>\<open>filterValidRules\<close>: \<open>filteredRules\<close> is the slice built so far, each
  \<^verbatim>\<open>continue\<close> goes on with the rest of the input.
\<close>

fun filterValidRules_loop :: "ExclusionRule list \<Rightarrow> ExclusionRule list \<Rightarrow> ExclusionRule list" where
  "filterValidRules_loop filteredRules [] = filteredRules"
| "filterValidRules_loop filteredRules (rule # rest) =
     (case Scope rule of
        None \<Rightarrow> filterValidRules_loop filteredRules rest
      | Some sc \<Rightarrow>
          if sc = AllScopes \<or> APIGroup rule = ''*'' \<or> APIVersion rule = ''*'' \<or>
             Namespace rule = ''*'' \<or> Kind rule = ''*''
          then filterValidRules_loop filteredRules rest
          else if contains (Name rule) ''*'' \<and> isDisallowedNameWildcard rule
          then filterValidRules_loop filteredRules rest
          else if sc = ClusterScope \<and> Namespace rule \<noteq> ''''
          then filterValidRules_loop filteredRules rest
          else if sc = NamespacedScope \<and> Namespace rule = ''''
          then filterValidRules_loop filteredRules rest
          else filterValidRules_loop (filteredRules @ [rule]) rest)"

definition filterValidRules :: "ExclusionRule list \<Rightarrow> ExclusionRule list" where
  "filterValidRules inputExclusionRules = filterValidRules_loop [] inputExclusionRules"

section \<open>The excluder\<close>

definition NewCriticalPathExcluder ::
    "OS \<Rightarrow> (string \<Rightarrow> error + ExclusionRule list) \<Rightarrow> CriticalPathExcluder" where
  "NewCriticalPathExcluder os unmarshal =
     (let exclusionRulesFromFile = readFile os unmarshal;
          filteredExclusionRules = filterValidRules exclusionRulesFromFile
      in \<lparr>exclusionRules = filteredExclusionRules\<rparr>)"

fun ShouldSkip_loop :: "ExclusionRule list \<Rightarrow> Attributes \<Rightarrow> bool" where
  "ShouldSkip_loop [] attr = False"
| "ShouldSkip_loop (r # rest) attr =
     (if Matches \<lparr>ExclusionRule = r, Attr = attr\<rparr> then True else ShouldSkip_loop rest attr)"

definition ShouldSkipWebhookDueToExclusionRules :: "CriticalPathExcluder \<Rightarrow> Attributes \<Rightarrow> bool" where
  "ShouldSkipWebhookDueToExclusionRules excludor attr =
     ShouldSkip_loop (exclusionRules excludor) attr"

section \<open>Inputs of the package's tests\<close>

text \<open>\<^verbatim>\<open>admission.Create\<close>, and \<^verbatim>\<open>getAttributes()\<close> of the excluder's test file.\<close>

definition Create :: string where
  "Create = ''CREATE''"

definition getAttributes :: Attributes where
  "getAttributes =
     \<lparr>GetKind = \<lparr>gvk_Group = ''apps'', gvk_Version = ''v1'', gvk_Kind = ''Deployment''\<rparr>,
      GetNamespace = ''ns'', GetName = ''testName'',
      GetResource = \<lparr>gvr_Group = ''apps'', gvr_Version = ''v1'', gvr_Resource = ''deployments''\<rparr>,
      GetSubresource = '''', GetOperation = Create\<rparr>"

section \<open>The validator's checks as the specification words them\<close>

text \<open>
  The five checks of the specification's RuleValidator, in its words and order: the scope
  is set; the scope is not the all-scopes token and none of group, version, namespace and
  kind is the wildcard; a wildcard among the names implies the Lease condition; Cluster
  scope implies an empty namespace; Namespaced scope implies a non-empty one. It is
  compared below with \<^const>\<open>filterValidRules\<close>, which is the code.
\<close>

definition RuleValidator_checks :: "ExclusionRule \<Rightarrow> bool" where
  "RuleValidator_checks rule =
     (Scope rule \<noteq> None \<and>
      (Scope rule \<noteq> Some AllScopes \<and> APIGroup rule \<noteq> ''*'' \<and> APIVersion rule \<noteq> ''*'' \<and>
       Namespace rule \<noteq> ''*'' \<and> Kind rule \<noteq> ''*'') \<and>
      (''*'' \<in> set (Name rule) \<longrightarrow>
         APIGroup rule = ''coordination.k8s.io'' \<and> APIVersion rule = ''v1'' \<and>
         Kind rule = ''Lease'' \<and> Namespace rule = ''kube-node-lease'') \<and>
      (Scope rule = Some ClusterScope \<longrightarrow> Namespace rule = '''') \<and>
      (Scope rule = Some NamespacedScope \<longrightarrow> Namespace rule \<noteq> ''''))"

section \<open>Basic facts about the loops\<close>

lemma contains_set: "contains s str = (str \<in> set s)"
  by (induction s) auto

lemma exactOrWildcard_set:
  "exactOrWildcard items requested = (''*'' \<in> set items \<or> requested \<in> set items)"
  by (induction items) auto

lemma Matches_unfold:
  "Matches \<lparr>ExclusionRule = rule, Attr = attr\<rparr> =
     (exactOrWildcard (Name rule) (GetName attr) \<and> Namespace rule = GetNamespace attr \<and>
      APIGroup rule = gvr_Group (GetResource attr) \<and>
      APIVersion rule = gvr_Version (GetResource attr) \<and>
      Kind rule = gvk_Kind (GetKind attr))"
  by (simp add: Matches_def name_def namespace_def group_def version_def kind_def)

text \<open>The loop of the validator appends to what it has built the rules that pass.\<close>

lemma filterValidRules_loop_filter:
  "filterValidRules_loop filteredRules rules = filteredRules @ filter RuleValidator_checks rules"
proof (induction rules arbitrary: filteredRules)
  case Nil
  show ?case by simp
next
  case (Cons rule rest)
  show ?case
  proof (cases "Scope rule")
    case None
    then show ?thesis by (simp add: Cons.IH RuleValidator_checks_def)
  next
    case (Some sc)
    then show ?thesis
      by (auto simp add: Cons.IH RuleValidator_checks_def contains_set isDisallowedNameWildcard_def)
  qed
qed

lemma filterValidRules_filter: "filterValidRules rules = filter RuleValidator_checks rules"
  by (simp add: filterValidRules_def filterValidRules_loop_filter)

lemma filterValidRules_removeAll_rejected:
  "\<not> RuleValidator_checks rule \<Longrightarrow>
     filterValidRules (removeAll rule rules) = filterValidRules rules"
  by (induction rules) (auto simp add: filterValidRules_filter)

lemma ShouldSkip_loop_ex:
  "ShouldSkip_loop rules attr = (\<exists>r \<in> set rules. Matches \<lparr>ExclusionRule = r, Attr = attr\<rparr>)"
  by (induction rules) auto

section \<open>The validator\<close>

text \<open>
  Claim C7. For every input sequence the output of \<^verbatim>\<open>filterValidRules\<close> consists of
  exactly the rules that pass the five checks, in input order: it is a subsequence of the
  input, never longer than it, and a rule that fails the checks leaves the processing of
  the rules before and after it untouched.
\<close>

theorem filterValidRules_refines_checks:
  "filterValidRules rules = filter RuleValidator_checks rules \<and>
   subseq (filterValidRules rules) rules \<and>
   length (filterValidRules rules) \<le> length rules \<and>
   (\<not> RuleValidator_checks rejected \<longrightarrow>
      filterValidRules (before @ rejected # later) =
      filterValidRules before @ filterValidRules later)"
  by (simp add: filterValidRules_filter)

text \<open>
  Claim C7, at the input of the test "No Empty Scope" followed by a third, valid rule: the
  rule without a scope is dropped, the rules around it are kept in order.
\<close>

theorem filterValidRules_refines_checks_witness:
  "filterValidRules
     ([\<lparr>APIGroup = ''apps'', APIVersion = ''v1'', Name = [''testName''], Kind = ''Deployment'',
        Namespace = ''ns'', Scope = Some NamespacedScope\<rparr>] @
      \<lparr>APIGroup = ''apps'', APIVersion = ''v1'', Name = [''testName''], Kind = ''Deployment'',
        Namespace = ''ns'', Scope = None\<rparr> #
      [\<lparr>APIGroup = '''', APIVersion = ''v1'', Name = [''kube-scheduler''], Kind = ''Endpoints'',
        Namespace = ''kube-system'', Scope = Some NamespacedScope\<rparr>]) =
     [\<lparr>APIGroup = ''apps'', APIVersion = ''v1'', Name = [''testName''], Kind = ''Deployment'',
       Namespace = ''ns'', Scope = Some NamespacedScope\<rparr>,
      \<lparr>APIGroup = '''', APIVersion = ''v1'', Name = [''kube-scheduler''], Kind = ''Endpoints'',
       Namespace = ''kube-system'', Scope = Some NamespacedScope\<rparr>]"
proof -
  have rejected: "\<not> RuleValidator_checks
      \<lparr>APIGroup = ''apps'', APIVersion = ''v1'', Name = [''testName''], Kind = ''Deployment'',
       Namespace = ''ns'', Scope = None\<rparr>"
    by (simp add: RuleValidator_checks_def)
  have parts:
    "filter RuleValidator_checks
       [\<lparr>APIGroup = ''apps'', APIVersion = ''v1'', Name = [''testName''], Kind = ''Deployment'',
         Namespace = ''ns'', Scope = Some NamespacedScope\<rparr>] =
       [\<lparr>APIGroup = ''apps'', APIVersion = ''v1'', Name = [''testName''], Kind = ''Deployment'',
         Namespace = ''ns'', Scope = Some NamespacedScope\<rparr>]"
    "filter RuleValidator_checks
       [\<lparr>APIGroup = '''', APIVersion = ''v1'', Name = [''kube-scheduler''], Kind = ''Endpoints'',
         Namespace = ''kube-system'', Scope = Some NamespacedScope\<rparr>] =
       [\<lparr>APIGroup = '''', APIVersion = ''v1'', Name = [''kube-scheduler''], Kind = ''Endpoints'',
         Namespace = ''kube-system'', Scope = Some NamespacedScope\<rparr>]"
    by (simp_all add: RuleValidator_checks_def NamespacedScope_def AllScopes_def ClusterScope_def)
  show ?thesis
    using rejected parts
      filterValidRules_refines_checks
        [where rejected = "\<lparr>APIGroup = ''apps'', APIVersion = ''v1'', Name = [''testName''],
           Kind = ''Deployment'', Namespace = ''ns'', Scope = None\<rparr>"
          and before = "[\<lparr>APIGroup = ''apps'', APIVersion = ''v1'', Name = [''testName''],
           Kind = ''Deployment'', Namespace = ''ns'', Scope = Some NamespacedScope\<rparr>]"
          and later = "[\<lparr>APIGroup = '''', APIVersion = ''v1'', Name = [''kube-scheduler''],
           Kind = ''Endpoints'', Namespace = ''kube-system'', Scope = Some NamespacedScope\<rparr>]"
          and rules = "[\<lparr>APIGroup = ''apps'', APIVersion = ''v1'', Name = [''testName''],
           Kind = ''Deployment'', Namespace = ''ns'', Scope = Some NamespacedScope\<rparr>]"]
      filterValidRules_refines_checks
        [where rules = "[\<lparr>APIGroup = '''', APIVersion = ''v1'', Name = [''kube-scheduler''],
           Kind = ''Endpoints'', Namespace = ''kube-system'', Scope = Some NamespacedScope\<rparr>]"]
    by simp
qed

text \<open>
  Claim C9. The validator is idempotent: run on its own output it returns that output
  unchanged.
\<close>

theorem filterValidRules_idempotent:
  "filterValidRules (filterValidRules s) = filterValidRules s"
  by (simp add: filterValidRules_filter)

section \<open>The excluder and the matcher\<close>

text \<open>
  Claim C2. \<^verbatim>\<open>ShouldSkipWebhookDueToExclusionRules\<close> is true exactly when some rule held
  by the excluder matches the request; it is false on the empty sequence; and once a rule
  matches, the answer is true whatever rules come after it.
\<close>

theorem ShouldSkip_iff_some_rule_matches:
  "ShouldSkipWebhookDueToExclusionRules excludor attr =
     (\<exists>r \<in> set (exclusionRules excludor). Matches \<lparr>ExclusionRule = r, Attr = attr\<rparr>) \<and>
   ShouldSkipWebhookDueToExclusionRules \<lparr>exclusionRules = []\<rparr> attr = False \<and>
   (Matches \<lparr>ExclusionRule = first, Attr = attr\<rparr> \<longrightarrow>
      ShouldSkipWebhookDueToExclusionRules \<lparr>exclusionRules = before @ first # later\<rparr> attr = True)"
  by (auto simp add: ShouldSkipWebhookDueToExclusionRules_def ShouldSkip_loop_ex)

text \<open>
  Claim C2, at the test case "Matches attribute second exclusion rule": the second rule
  matches the request of \<^const>\<open>getAttributes\<close>, so the webhook is skipped.
\<close>

theorem ShouldSkip_iff_some_rule_matches_witness:
  "ShouldSkipWebhookDueToExclusionRules
     \<lparr>exclusionRules =
        [\<lparr>APIGroup = '''', APIVersion = ''v1'', Name = [''mismatch''], Kind = ''Configmap'',
          Namespace = ''ns'', Scope = Some NamespacedScope\<rparr>] @
        \<lparr>APIGroup = ''apps'', APIVersion = ''v1'', Name = [''testName''], Kind = ''Deployment'',
          Namespace = ''ns'', Scope = Some NamespacedScope\<rparr> # []\<rparr>
     getAttributes = True"
proof -
  have matched: "Matches \<lparr>ExclusionRule =
       \<lparr>APIGroup = ''apps'', APIVersion = ''v1'', Name = [''testName''], Kind = ''Deployment'',
        Namespace = ''ns'', Scope = Some NamespacedScope\<rparr>,
     Attr = getAttributes\<rparr>"
    by (simp add: Matches_unfold getAttributes_def)
  show ?thesis
    using matched ShouldSkip_iff_some_rule_matches
      [where attr = getAttributes
        and first = "\<lparr>APIGroup = ''apps'', APIVersion = ''v1'', Name = [''testName''],
           Kind = ''Deployment'', Namespace = ''ns'', Scope = Some NamespacedScope\<rparr>"
        and before = "[\<lparr>APIGroup = '''', APIVersion = ''v1'', Name = [''mismatch''],
           Kind = ''Configmap'', Namespace = ''ns'', Scope = Some NamespacedScope\<rparr>]"
        and later = "[]"]
    by blast
qed

text \<open>
  Claim C10. The result of \<^verbatim>\<open>Matches\<close> is the same for two requests that agree on the
  group and version of the resource, on the kind, the namespace and the name, and it does
  not change when the scope of the rule is replaced: the resource identifier, the
  subresource, the operation and the rule's scope play no part.
\<close>

theorem Matches_independent_of_resource_and_scope:
  assumes "gvr_Group (GetResource a) = gvr_Group (GetResource a')"
    and "gvr_Version (GetResource a) = gvr_Version (GetResource a')"
    and "gvk_Kind (GetKind a) = gvk_Kind (GetKind a')"
    and "GetNamespace a = GetNamespace a'"
    and "GetName a = GetName a'"
  shows "Matches \<lparr>ExclusionRule = rule\<lparr>Scope := s\<rparr>, Attr = a'\<rparr> =
         Matches \<lparr>ExclusionRule = rule, Attr = a\<rparr>"
  using assms by (simp add: Matches_unfold)

text \<open>
  Claim C10, at the request of \<^const>\<open>getAttributes\<close> and a second request for another
  resource identifier, subresource and operation, with the rule's scope removed: the two
  results are equal.
\<close>

theorem Matches_independent_of_resource_and_scope_witness:
  "Matches \<lparr>ExclusionRule =
       \<lparr>APIGroup = ''apps'', APIVersion = ''v1'', Name = [''testName''], Kind = ''Deployment'',
        Namespace = ''ns'', Scope = Some NamespacedScope\<rparr>\<lparr>Scope := None\<rparr>,
     Attr =
       \<lparr>GetKind = \<lparr>gvk_Group = ''apps'', gvk_Version = ''v1'', gvk_Kind = ''Deployment''\<rparr>,
        GetNamespace = ''ns'', GetName = ''testName'',
        GetResource = \<lparr>gvr_Group = ''apps'', gvr_Version = ''v1'', gvr_Resource = ''replicasets''\<rparr>,
        GetSubresource = ''status'', GetOperation = ''UPDATE''\<rparr>\<rparr> =
   Matches \<lparr>ExclusionRule =
       \<lparr>APIGroup = ''apps'', APIVersion = ''v1'', Name = [''testName''], Kind = ''Deployment'',
        Namespace = ''ns'', Scope = Some NamespacedScope\<rparr>,
     Attr = getAttributes\<rparr>"
proof -
  have agree:
    "gvr_Group (GetResource getAttributes) = ''apps''"
    "gvr_Version (GetResource getAttributes) = ''v1''"
    "gvk_Kind (GetKind getAttributes) = ''Deployment''"
    "GetNamespace getAttributes = ''ns''"
    "GetName getAttributes = ''testName''"
    by (simp_all add: getAttributes_def)
  show ?thesis
    by (rule Matches_independent_of_resource_and_scope) (simp_all add: agree)
qed

text \<open>
  Claim C1, evaluated on the code. The claim makes \<^verbatim>\<open>Matches\<close> true only when the
  rule's scope agrees with the request. The rule below passes the validator; the request
  is for the namespace object \<open>ns\<close>, whose namespace attribute is its own name. All five
  predicates hold and \<^verbatim>\<open>Matches\<close> is true, while \<^verbatim>\<open>scope\<close> is false for the same
  pair: \<^verbatim>\<open>Matches\<close> does not call \<^verbatim>\<open>scope\<close>.
\<close>

theorem Matches_true_where_scope_false:
  "filterValidRules
     [\<lparr>APIGroup = '''', APIVersion = ''v1'', Name = [''ns''], Kind = ''Namespace'',
       Namespace = ''ns'', Scope = Some NamespacedScope\<rparr>] =
     [\<lparr>APIGroup = '''', APIVersion = ''v1'', Name = [''ns''], Kind = ''Namespace'',
       Namespace = ''ns'', Scope = Some NamespacedScope\<rparr>] \<and>
   Matches \<lparr>ExclusionRule =
       \<lparr>APIGroup = '''', APIVersion = ''v1'', Name = [''ns''], Kind = ''Namespace'',
        Namespace = ''ns'', Scope = Some NamespacedScope\<rparr>,
     Attr =
       \<lparr>GetKind = \<lparr>gvk_Group = '''', gvk_Version = ''v1'', gvk_Kind = ''Namespace''\<rparr>,
        GetNamespace = ''ns'', GetName = ''ns'',
        GetResource = \<lparr>gvr_Group = '''', gvr_Version = ''v1'', gvr_Resource = ''namespaces''\<rparr>,
        GetSubresource = '''', GetOperation = Create\<rparr>\<rparr> \<and>
   \<not> scope \<lparr>ExclusionRule =
       \<lparr>APIGroup = '''', APIVersion = ''v1'', Name = [''ns''], Kind = ''Namespace'',
        Namespace = ''ns'', Scope = Some NamespacedScope\<rparr>,
     Attr =
       \<lparr>GetKind = \<lparr>gvk_Group = '''', gvk_Version = ''v1'', gvk_Kind = ''Namespace''\<rparr>,
        GetNamespace = ''ns'', GetName = ''ns'',
        GetResource = \<lparr>gvr_Group = '''', gvr_Version = ''v1'', gvr_Resource = ''namespaces''\<rparr>,
        GetSubresource = '''', GetOperation = Create\<rparr>\<rparr>"
proof -
  have tokens: "NamespacedScope \<noteq> AllScopes" "NamespacedScope \<noteq> ClusterScope"
    by (simp_all add: NamespacedScope_def AllScopes_def ClusterScope_def)
  show ?thesis
    by (simp add: filterValidRules_def isDisallowedNameWildcard_def Matches_unfold scope_def
        namespaceResource_def tokens)
qed

section \<open>The validator on particular kinds of rules\<close>

text \<open>
  Claim C4, as the code has it. A rule of the input whose names contain the wildcard
  survives validation exactly when it is the Lease rule of \<open>kube-node-lease\<close> (group
  \<open>coordination.k8s.io\<close>, version \<open>v1\<close>) and, in addition, its scope is set and is
  neither the all-scopes token nor Cluster.
\<close>

theorem wildcard_name_survives_iff:
  assumes "rule \<in> set rules" and "contains (Name rule) ''*''"
  shows "(rule \<in> set (filterValidRules rules)) =
     (APIGroup rule = ''coordination.k8s.io'' \<and> APIVersion rule = ''v1'' \<and>
      Kind rule = ''Lease'' \<and> Namespace rule = ''kube-node-lease'' \<and>
      (\<exists>sc. Scope rule = Some sc \<and> sc \<noteq> AllScopes \<and> sc \<noteq> ClusterScope))"
  using assms
  by (auto simp add: filterValidRules_filter RuleValidator_checks_def contains_set)

text \<open>
  Claim C4, at the second rule of the test "Allowed name wildcard": it is in the output.
\<close>

theorem wildcard_name_survives_iff_witness:
  "\<lparr>APIGroup = ''coordination.k8s.io'', APIVersion = ''v1'', Name = [''*''], Kind = ''Lease'',
     Namespace = ''kube-node-lease'', Scope = Some NamespacedScope\<rparr>
   \<in> set (filterValidRules
       [\<lparr>APIGroup = ''coordination.k8s.io'', APIVersion = ''v1'', Name = [''*''], Kind = ''Lease'',
         Namespace = ''kube-node-lease'', Scope = Some NamespacedScope\<rparr>])"
  using wildcard_name_survives_iff
    [where rule = "\<lparr>APIGroup = ''coordination.k8s.io'', APIVersion = ''v1'', Name = [''*''],
       Kind = ''Lease'', Namespace = ''kube-node-lease'', Scope = Some NamespacedScope\<rparr>"
      and rules = "[\<lparr>APIGroup = ''coordination.k8s.io'', APIVersion = ''v1'', Name = [''*''],
       Kind = ''Lease'', Namespace = ''kube-node-lease'', Scope = Some NamespacedScope\<rparr>]"]
  by (simp add: NamespacedScope_def AllScopes_def ClusterScope_def)

text \<open>
  Claim C4 as stated fails: the Lease rule of \<open>kube-node-lease\<close> with the wildcard name
  and no scope meets the four-field condition and is dropped all the same.
\<close>

theorem wildcard_name_unset_scope_counterexample:
  "filterValidRules
     [\<lparr>APIGroup = ''coordination.k8s.io'', APIVersion = ''v1'', Name = [''*''], Kind = ''Lease'',
       Namespace = ''kube-node-lease'', Scope = None\<rparr>] = []"
  by (simp add: filterValidRules_def)

text \<open>
  Claim C5, as the code has it. A rule for the namespace object (core group, \<open>v1\<close>, kind
  \<open>Namespace\<close>) with scope Namespaced is dropped by the validator exactly when its
  namespace field is empty or the wildcard, or its names contain the wildcard; and a rule
  the validator drops has no part in the decision: the excluder answers as if the rule
  had never been in the input.
\<close>

theorem namespace_rule_rejected_iff:
  assumes "rule \<in> set rules"
    and "APIGroup rule = ''''" and "APIVersion rule = ''v1''" and "Kind rule = ''Namespace''"
    and "Scope rule = Some NamespacedScope"
  shows "(rule \<notin> set (filterValidRules rules)) =
           (Namespace rule = '''' \<or> Namespace rule = ''*'' \<or> contains (Name rule) ''*'') \<and>
         (rule \<notin> set (filterValidRules rules) \<longrightarrow>
            ShouldSkipWebhookDueToExclusionRules \<lparr>exclusionRules = filterValidRules rules\<rparr> attr =
            ShouldSkipWebhookDueToExclusionRules
              \<lparr>exclusionRules = filterValidRules (removeAll rule rules)\<rparr> attr)"
proof -
  have valid: "RuleValidator_checks rule =
      (\<not> (Namespace rule = '''' \<or> Namespace rule = ''*'' \<or> contains (Name rule) ''*''))"
    using assms(2-5)
    by (auto simp add: RuleValidator_checks_def contains_set NamespacedScope_def AllScopes_def
        ClusterScope_def)
  have mem: "(rule \<in> set (filterValidRules rules)) = RuleValidator_checks rule"
    using assms(1) by (simp add: filterValidRules_filter)
  show ?thesis
    using valid mem filterValidRules_removeAll_rejected [of rule rules] by auto
qed

text \<open>
  Claim C5, at a Namespaced rule for the namespace object with an empty namespace field,
  placed after the rule of the excluder's tests: it is dropped, and the request of
  \<^const>\<open>getAttributes\<close> is skipped with it in the input just as without it.
\<close>

theorem namespace_rule_rejected_iff_witness:
  "\<lparr>APIGroup = '''', APIVersion = ''v1'', Name = [''ns''], Kind = ''Namespace'',
     Namespace = '''', Scope = Some NamespacedScope\<rparr>
   \<notin> set (filterValidRules
       [\<lparr>APIGroup = ''apps'', APIVersion = ''v1'', Name = [''testName''], Kind = ''Deployment'',
         Namespace = ''ns'', Scope = Some NamespacedScope\<rparr>,
        \<lparr>APIGroup = '''', APIVersion = ''v1'', Name = [''ns''], Kind = ''Namespace'',
         Namespace = '''', Scope = Some NamespacedScope\<rparr>]) \<and>
   ShouldSkipWebhookDueToExclusionRules
     \<lparr>exclusionRules = filterValidRules
        [\<lparr>APIGroup = ''apps'', APIVersion = ''v1'', Name = [''testName''], Kind = ''Deployment'',
          Namespace = ''ns'', Scope = Some NamespacedScope\<rparr>,
         \<lparr>APIGroup = '''', APIVersion = ''v1'', Name = [''ns''], Kind = ''Namespace'',
          Namespace = '''', Scope = Some NamespacedScope\<rparr>]\<rparr>
     getAttributes =
   ShouldSkipWebhookDueToExclusionRules
     \<lparr>exclusionRules = filterValidRules
        [\<lparr>APIGroup = ''apps'', APIVersion = ''v1'', Name = [''testName''], Kind = ''Deployment'',
          Namespace = ''ns'', Scope = Some NamespacedScope\<rparr>]\<rparr>
     getAttributes"
  using namespace_rule_rejected_iff
    [where rule = "\<lparr>APIGroup = '''', APIVersion = ''v1'', Name = [''ns''], Kind = ''Namespace'',
       Namespace = '''', Scope = Some NamespacedScope\<rparr>"
      and rules = "[\<lparr>APIGroup = ''apps'', APIVersion = ''v1'', Name = [''testName''],
         Kind = ''Deployment'', Namespace = ''ns'', Scope = Some NamespacedScope\<rparr>,
        \<lparr>APIGroup = '''', APIVersion = ''v1'', Name = [''ns''], Kind = ''Namespace'',
         Namespace = '''', Scope = Some NamespacedScope\<rparr>]"
      and attr = getAttributes]
  by simp

text \<open>
  Claim C5 as stated fails: a Namespaced rule for the namespace object that names a
  namespace is kept by the validator, and the request for that namespace object is then
  skipped.
\<close>

theorem namespace_rule_accepted_counterexample:
  "filterValidRules
     [\<lparr>APIGroup = '''', APIVersion = ''v1'', Name = [''ns''], Kind = ''Namespace'',
       Namespace = ''ns'', Scope = Some NamespacedScope\<rparr>] =
     [\<lparr>APIGroup = '''', APIVersion = ''v1'', Name = [''ns''], Kind = ''Namespace'',
       Namespace = ''ns'', Scope = Some NamespacedScope\<rparr>] \<and>
   ShouldSkipWebhookDueToExclusionRules
     \<lparr>exclusionRules = filterValidRules
        [\<lparr>APIGroup = '''', APIVersion = ''v1'', Name = [''ns''], Kind = ''Namespace'',
          Namespace = ''ns'', Scope = Some NamespacedScope\<rparr>]\<rparr>
     \<lparr>GetKind = \<lparr>gvk_Group = '''', gvk_Version = ''v1'', gvk_Kind = ''Namespace''\<rparr>,
      GetNamespace = ''ns'', GetName = ''ns'',
      GetResource = \<lparr>gvr_Group = '''', gvr_Version = ''v1'', gvr_Resource = ''namespaces''\<rparr>,
      GetSubresource = '''', GetOperation = Create\<rparr>"
  by (simp add: filterValidRules_def ShouldSkipWebhookDueToExclusionRules_def Matches_unfold
      NamespacedScope_def AllScopes_def ClusterScope_def isDisallowedNameWildcard_def)

text \<open>
  Claim C6, as the code has it. Take a rule of the input with an empty names list, an empty
  group, version, kind or namespace, or no scope. The validator drops it exactly when its
  scope is unset or the all-scopes token, or one of group, version, namespace and kind is
  the wildcard, or its names contain the wildcard, or its namespace is set under Cluster
  scope, or its namespace is empty under Namespaced scope. So a rule without a scope is
  always dropped and an empty namespace is dropped under Namespaced scope, while an empty
  names list, group, version or kind does not by itself make the validator drop a rule: it
  only rules out a wildcard among the names. A rule with an empty names list matches no
  request.
\<close>

theorem empty_fields_validation:
  assumes "rule \<in> set rules"
    and "Name rule = [] \<or> APIGroup rule = '''' \<or> APIVersion rule = '''' \<or> Kind rule = '''' \<or>
         Namespace rule = '''' \<or> Scope rule = None"
  shows "(rule \<notin> set (filterValidRules rules)) =
           (Scope rule = None \<or> Scope rule = Some AllScopes \<or>
            APIGroup rule = ''*'' \<or> APIVersion rule = ''*'' \<or> Namespace rule = ''*'' \<or>
            Kind rule = ''*'' \<or> contains (Name rule) ''*'' \<or>
            (Scope rule = Some ClusterScope \<and> Namespace rule \<noteq> '''') \<or>
            (Scope rule = Some NamespacedScope \<and> Namespace rule = '''')) \<and>
         (Name rule = [] \<longrightarrow> \<not> Matches \<lparr>ExclusionRule = rule, Attr = attr\<rparr>)"
proof -
  have lease: "contains (Name rule) ''*'' \<Longrightarrow> Scope rule \<noteq> None \<Longrightarrow>
      \<not> (APIGroup rule = ''coordination.k8s.io'' \<and> APIVersion rule = ''v1'' \<and>
         Kind rule = ''Lease'' \<and> Namespace rule = ''kube-node-lease'')"
    using assms(2) by auto
  have mem: "(rule \<in> set (filterValidRules rules)) = RuleValidator_checks rule"
    using assms(1) by (simp add: filterValidRules_filter)
  have dropped: "(\<not> RuleValidator_checks rule) =
      (Scope rule = None \<or> Scope rule = Some AllScopes \<or>
       APIGroup rule = ''*'' \<or> APIVersion rule = ''*'' \<or> Namespace rule = ''*'' \<or>
       Kind rule = ''*'' \<or> contains (Name rule) ''*'' \<or>
       (Scope rule = Some ClusterScope \<and> Namespace rule \<noteq> '''') \<or>
       (Scope rule = Some NamespacedScope \<and> Namespace rule = ''''))"
    using lease by (auto simp add: RuleValidator_checks_def contains_set)
  have unmatched: "Name rule = [] \<longrightarrow> \<not> Matches \<lparr>ExclusionRule = rule, Attr = attr\<rparr>"
    by (simp add: Matches_unfold)
  show ?thesis
    using mem dropped unmatched by simp
qed

text \<open>
  Claim C6, at five rules and one request. The rule of the test "No Empty Scope" and the
  rule of the test "Namespaced scoped requires namespace" are dropped. A rule with no
  names, and a rule with an empty group, version and kind, are kept. The Lease rule of
  \<open>kube-node-lease\<close> with the wildcard name and an empty version is dropped. The rule
  with no names does not match the request of \<^const>\<open>getAttributes\<close>.
\<close>

theorem empty_fields_validation_witness:
  "\<lparr>APIGroup = ''apps'', APIVersion = ''v1'', Name = [''testName''], Kind = ''Deployment'',
     Namespace = ''ns'', Scope = None\<rparr>
   \<notin> set (filterValidRules
       [\<lparr>APIGroup = ''apps'', APIVersion = ''v1'', Name = [''testName''], Kind = ''Deployment'',
         Namespace = ''ns'', Scope = None\<rparr>]) \<and>
   \<lparr>APIGroup = ''apps'', APIVersion = ''v1'', Name = [''testName''], Kind = ''Deployment'',
     Namespace = '''', Scope = Some NamespacedScope\<rparr>
   \<notin> set (filterValidRules
       [\<lparr>APIGroup = ''apps'', APIVersion = ''v1'', Name = [''testName''], Kind = ''Deployment'',
         Namespace = '''', Scope = Some NamespacedScope\<rparr>]) \<and>
   \<lparr>APIGroup = ''apps'', APIVersion = ''v1'', Name = [], Kind = ''Deployment'',
     Namespace = ''ns'', Scope = Some NamespacedScope\<rparr>
   \<in> set (filterValidRules
       [\<lparr>APIGroup = ''apps'', APIVersion = ''v1'', Name = [], Kind = ''Deployment'',
         Namespace = ''ns'', Scope = Some NamespacedScope\<rparr>]) \<and>
   \<lparr>APIGroup = '''', APIVersion = '''', Name = [''testName''], Kind = '''',
     Namespace = ''ns'', Scope = Some NamespacedScope\<rparr>
   \<in> set (filterValidRules
       [\<lparr>APIGroup = '''', APIVersion = '''', Name = [''testName''], Kind = '''',
         Namespace = ''ns'', Scope = Some NamespacedScope\<rparr>]) \<and>
   \<lparr>APIGroup = ''coordination.k8s.io'', APIVersion = '''', Name = [''*''], Kind = ''Lease'',
     Namespace = ''kube-node-lease'', Scope = Some NamespacedScope\<rparr>
   \<notin> set (filterValidRules
       [\<lparr>APIGroup = ''coordination.k8s.io'', APIVersion = '''', Name = [''*''], Kind = ''Lease'',
         Namespace = ''kube-node-lease'', Scope = Some NamespacedScope\<rparr>]) \<and>
   \<not> Matches \<lparr>ExclusionRule =
       \<lparr>APIGroup = ''apps'', APIVersion = ''v1'', Name = [], Kind = ''Deployment'',
        Namespace = ''ns'', Scope = Some NamespacedScope\<rparr>,
     Attr = getAttributes\<rparr>"
proof -
  have tokens: "NamespacedScope \<noteq> AllScopes" "NamespacedScope \<noteq> ClusterScope"
    by (simp_all add: NamespacedScope_def AllScopes_def ClusterScope_def)
  show ?thesis
    using tokens
      empty_fields_validation
        [where rule = "\<lparr>APIGroup = ''apps'', APIVersion = ''v1'', Name = [''testName''],
           Kind = ''Deployment'', Namespace = ''ns'', Scope = None\<rparr>"
          and rules = "[\<lparr>APIGroup = ''apps'', APIVersion = ''v1'', Name = [''testName''],
           Kind = ''Deployment'', Namespace = ''ns'', Scope = None\<rparr>]"]
      empty_fields_validation
        [where rule = "\<lparr>APIGroup = ''apps'', APIVersion = ''v1'', Name = [''testName''],
           Kind = ''Deployment'', Namespace = '''', Scope = Some NamespacedScope\<rparr>"
          and rules = "[\<lparr>APIGroup = ''apps'', APIVersion = ''v1'', Name = [''testName''],
           Kind = ''Deployment'', Namespace = '''', Scope = Some NamespacedScope\<rparr>]"]
      empty_fields_validation
        [where rule = "\<lparr>APIGroup = ''apps'', APIVersion = ''v1'', Name = [],
           Kind = ''Deployment'', Namespace = ''ns'', Scope = Some NamespacedScope\<rparr>"
          and rules = "[\<lparr>APIGroup = ''apps'', APIVersion = ''v1'', Name = [],
           Kind = ''Deployment'', Namespace = ''ns'', Scope = Some NamespacedScope\<rparr>]"
          and attr = getAttributes]
      empty_fields_validation
        [where rule = "\<lparr>APIGroup = '''', APIVersion = '''', Name = [''testName''],
           Kind = '''', Namespace = ''ns'', Scope = Some NamespacedScope\<rparr>"
          and rules = "[\<lparr>APIGroup = '''', APIVersion = '''', Name = [''testName''],
           Kind = '''', Namespace = ''ns'', Scope = Some NamespacedScope\<rparr>]"]
      empty_fields_validation
        [where rule = "\<lparr>APIGroup = ''coordination.k8s.io'', APIVersion = '''', Name = [''*''],
           Kind = ''Lease'', Namespace = ''kube-node-lease'', Scope = Some NamespacedScope\<rparr>"
          and rules = "[\<lparr>APIGroup = ''coordination.k8s.io'', APIVersion = '''', Name = [''*''],
           Kind = ''Lease'', Namespace = ''kube-node-lease'', Scope = Some NamespacedScope\<rparr>]"]
    by simp
qed

text \<open>
  Claim C6 as stated fails: a rule whose names list is absent, with every other field
  set, is kept by the validator.
\<close>

theorem empty_names_accepted_counterexample:
  "filterValidRules
     [\<lparr>APIGroup = ''apps'', APIVersion = ''v1'', Name = [], Kind = ''Deployment'',
       Namespace = ''default'', Scope = Some NamespacedScope\<rparr>] =
     [\<lparr>APIGroup = ''apps'', APIVersion = ''v1'', Name = [], Kind = ''Deployment'',
       Namespace = ''default'', Scope = Some NamespacedScope\<rparr>]"
  by (simp add: filterValidRules_def NamespacedScope_def AllScopes_def ClusterScope_def)

section \<open>The loader and the default rules\<close>

text \<open>
  Claim C3, as the code has it. \<^verbatim>\<open>readFile\<close> returns a rule sequence in every case,
  never an error. When the environment variable is not set, when the file it names cannot
  be read, or when its contents do not parse, the result is the default set: the two
  rules for \<open>coordination.k8s.io/v1\<close> Lease and core \<open>v1\<close> Endpoints in \<open>kube-system\<close>,
  names \<open>kube-controller-manager\<close> and \<open>kube-scheduler\<close>, scope Namespaced; this set is
  not empty. When the file is read and parses, the result is the parsed sequence as it
  is, whatever it holds.
\<close>

theorem readFile_default_or_verbatim:
  "(LookupEnv os ADMISSION_WEBHOOK_EXCLUSION_ENV_VAR = None \<longrightarrow>
      readFile os unmarshal = defaultExclusion) \<and>
   (LookupEnv os ADMISSION_WEBHOOK_EXCLUSION_ENV_VAR = Some fileLocation \<and>
    ReadFile os fileLocation = Inl err \<longrightarrow>
      readFile os unmarshal = defaultExclusion) \<and>
   (LookupEnv os ADMISSION_WEBHOOK_EXCLUSION_ENV_VAR = Some fileLocation \<and>
    ReadFile os fileLocation = Inr bytes \<and> unmarshal bytes = Inl err \<longrightarrow>
      readFile os unmarshal = defaultExclusion) \<and>
   (LookupEnv os ADMISSION_WEBHOOK_EXCLUSION_ENV_VAR = Some fileLocation \<and>
    ReadFile os fileLocation = Inr bytes \<and> unmarshal bytes = Inr data \<longrightarrow>
      readFile os unmarshal = data) \<and>
   defaultExclusion =
     [\<lparr>APIGroup = ''coordination.k8s.io'', APIVersion = ''v1'',
       Name = [''kube-controller-manager'', ''kube-scheduler''],
       Kind = ''Lease'', Namespace = ''kube-system'', Scope = Some NamespacedScope\<rparr>,
      \<lparr>APIGroup = '''', APIVersion = ''v1'',
       Name = [''kube-controller-manager'', ''kube-scheduler''],
       Kind = ''Endpoints'', Namespace = ''kube-system'', Scope = Some NamespacedScope\<rparr>] \<and>
   defaultExclusion \<noteq> []"
  by (simp add: readFile_def defaultExclusion_def)

text \<open>
  Claim C3, in the four situations of the integration tests: no variable; a variable
  naming a missing file; a file holding \<open>bad file\<close>; and a file that parses, here to one
  rule the validator would drop, which \<^verbatim>\<open>readFile\<close> returns untouched.
\<close>

theorem readFile_default_or_verbatim_witness:
  "readFile \<lparr>LookupEnv = Map.empty, ReadFile = (\<lambda>fileLocation. Inl ''no such file'')\<rparr>
     (\<lambda>file. Inl ''invalid character'') = defaultExclusion \<and>
   readFile
     \<lparr>LookupEnv = [ADMISSION_WEBHOOK_EXCLUSION_ENV_VAR \<mapsto> ''exclusion-rules-config.json''],
      ReadFile = (\<lambda>fileLocation. Inl ''no such file'')\<rparr>
     (\<lambda>file. Inl ''invalid character'') = defaultExclusion \<and>
   readFile
     \<lparr>LookupEnv = [ADMISSION_WEBHOOK_EXCLUSION_ENV_VAR \<mapsto> ''exclusion-rules-config.json''],
      ReadFile = (\<lambda>fileLocation. Inr ''bad file'')\<rparr>
     (\<lambda>file. Inl ''invalid character'') = defaultExclusion \<and>
   readFile
     \<lparr>LookupEnv = [ADMISSION_WEBHOOK_EXCLUSION_ENV_VAR \<mapsto> ''exclusion-rules-config.json''],
      ReadFile = (\<lambda>fileLocation. Inr ''rules'')\<rparr>
     (\<lambda>file. Inr [\<lparr>APIGroup = ''*'', APIVersion = ''v1'', Name = [], Kind = ''Deployment'',
        Namespace = ''default'', Scope = None\<rparr>]) =
     [\<lparr>APIGroup = ''*'', APIVersion = ''v1'', Name = [], Kind = ''Deployment'',
        Namespace = ''default'', Scope = None\<rparr>]"
  using
    readFile_default_or_verbatim
      [where os = "\<lparr>LookupEnv = Map.empty, ReadFile = (\<lambda>fileLocation. Inl ''no such file'')\<rparr>"
        and unmarshal = "\<lambda>file. Inl ''invalid character''"]
    readFile_default_or_verbatim
      [where os = "\<lparr>LookupEnv =
            [ADMISSION_WEBHOOK_EXCLUSION_ENV_VAR \<mapsto> ''exclusion-rules-config.json''],
          ReadFile = (\<lambda>fileLocation. Inl ''no such file'')\<rparr>"
        and unmarshal = "\<lambda>file. Inl ''invalid character''"
        and fileLocation = "''exclusion-rules-config.json''" and err = "''no such file''"]
    readFile_default_or_verbatim
      [where os = "\<lparr>LookupEnv =
            [ADMISSION_WEBHOOK_EXCLUSION_ENV_VAR \<mapsto> ''exclusion-rules-config.json''],
          ReadFile = (\<lambda>fileLocation. Inr ''bad file'')\<rparr>"
        and unmarshal = "\<lambda>file. Inl ''invalid character''"
        and fileLocation = "''exclusion-rules-config.json''" and bytes = "''bad file''"
        and err = "''invalid character''"]
    readFile_default_or_verbatim
      [where os = "\<lparr>LookupEnv =
            [ADMISSION_WEBHOOK_EXCLUSION_ENV_VAR \<mapsto> ''exclusion-rules-config.json''],
          ReadFile = (\<lambda>fileLocation. Inr ''rules'')\<rparr>"
        and unmarshal = "\<lambda>file. Inr [\<lparr>APIGroup = ''*'', APIVersion = ''v1'', Name = [],
          Kind = ''Deployment'', Namespace = ''default'', Scope = None\<rparr>]"
        and fileLocation = "''exclusion-rules-config.json''" and bytes = "''rules''"
        and data = "[\<lparr>APIGroup = ''*'', APIVersion = ''v1'', Name = [], Kind = ''Deployment'',
          Namespace = ''default'', Scope = None\<rparr>]"]
  by simp

text \<open>
  Claim C3 as stated fails: when the file holds the empty JSON list, which parses to no
  rules, \<^verbatim>\<open>readFile\<close> returns the empty sequence.
\<close>

theorem readFile_empty_counterexample:
  "readFile
     \<lparr>LookupEnv = [ADMISSION_WEBHOOK_EXCLUSION_ENV_VAR \<mapsto> ''exclusion-rules-config.json''],
      ReadFile = (\<lambda>fileLocation. Inr ''[]'')\<rparr>
     (\<lambda>file. if file = ''[]'' then Inr [] else Inl ''invalid character'') = []"
  by (simp add: readFile_def)

text \<open>
  Claim C8. With the environment variable not set, the excluder built by
  \<^verbatim>\<open>NewCriticalPathExcluder\<close> skips the webhook for a request, of any operation, for the
  core \<open>v1\<close> Endpoints named \<open>kube-controller-manager\<close> in \<open>kube-system\<close>, and does
  not skip it for the same request in the namespace \<open>default\<close>.
\<close>

theorem default_rules_scenario_A:
  assumes "LookupEnv os ADMISSION_WEBHOOK_EXCLUSION_ENV_VAR = None"
  shows "ShouldSkipWebhookDueToExclusionRules (NewCriticalPathExcluder os unmarshal)
       \<lparr>GetKind = \<lparr>gvk_Group = '''', gvk_Version = ''v1'', gvk_Kind = ''Endpoints''\<rparr>,
        GetNamespace = ''kube-system'', GetName = ''kube-controller-manager'',
        GetResource = \<lparr>gvr_Group = '''', gvr_Version = ''v1'', gvr_Resource = ''endpoints''\<rparr>,
        GetSubresource = '''', GetOperation = operation\<rparr> \<and>
     \<not> ShouldSkipWebhookDueToExclusionRules (NewCriticalPathExcluder os unmarshal)
       \<lparr>GetKind = \<lparr>gvk_Group = '''', gvk_Version = ''v1'', gvk_Kind = ''Endpoints''\<rparr>,
        GetNamespace = ''default'', GetName = ''kube-controller-manager'',
        GetResource = \<lparr>gvr_Group = '''', gvr_Version = ''v1'', gvr_Resource = ''endpoints''\<rparr>,
        GetSubresource = '''', GetOperation = operation\<rparr>"
proof -
  have rules: "exclusionRules (NewCriticalPathExcluder os unmarshal) = defaultExclusion"
    using assms
    by (simp add: NewCriticalPathExcluder_def readFile_def filterValidRules_def defaultExclusion_def
        NamespacedScope_def AllScopes_def ClusterScope_def)
  show ?thesis
    by (simp add: ShouldSkipWebhookDueToExclusionRules_def rules defaultExclusion_def Matches_unfold)
qed

text \<open>
  Claim C8, for a create request in an environment where no variable is set.
\<close>

theorem default_rules_scenario_A_witness:
  "ShouldSkipWebhookDueToExclusionRules
       (NewCriticalPathExcluder
          \<lparr>LookupEnv = Map.empty, ReadFile = (\<lambda>fileLocation. Inl ''no such file'')\<rparr>
          (\<lambda>file. Inl ''invalid character''))
       \<lparr>GetKind = \<lparr>gvk_Group = '''', gvk_Version = ''v1'', gvk_Kind = ''Endpoints''\<rparr>,
        GetNamespace = ''kube-system'', GetName = ''kube-controller-manager'',
        GetResource = \<lparr>gvr_Group = '''', gvr_Version = ''v1'', gvr_Resource = ''endpoints''\<rparr>,
        GetSubresource = '''', GetOperation = Create\<rparr> \<and>
   \<not> ShouldSkipWebhookDueToExclusionRules
       (NewCriticalPathExcluder
          \<lparr>LookupEnv = Map.empty, ReadFile = (\<lambda>fileLocation. Inl ''no such file'')\<rparr>
          (\<lambda>file. Inl ''invalid character''))
       \<lparr>GetKind = \<lparr>gvk_Group = '''', gvk_Version = ''v1'', gvk_Kind = ''Endpoints''\<rparr>,
        GetNamespace = ''default'', GetName = ''kube-controller-manager'',
        GetResource = \<lparr>gvr_Group = '''', gvr_Version = ''v1'', gvr_Resource = ''endpoints''\<rparr>,
        GetSubresource = '''', GetOperation = Create\<rparr>"
  using default_rules_scenario_A
    [where os = "\<lparr>LookupEnv = Map.empty, ReadFile = (\<lambda>fileLocation. Inl ''no such file'')\<rparr>"
      and unmarshal = "\<lambda>file. Inl ''invalid character''" and operation = Create]
  by simp

end
